theory Spec2Isabelle
  imports Main "HOL-Library.Char_ord" "HOL-Library.List_Lexorder"
begin

section \<open>Python strings\<close>

text \<open>
  A Python \<open>str\<close> is modelled as a \<open>string\<close>: each \<open>char\<close> stands for the code
  point of the same number, so the model covers the strings whose code points are below
  256.  \<open>is_space\<close> is \<open>str.isspace\<close> on one character of that range, which is what
  \<open>str.strip()\<close> removes at both ends.
\<close>

definition is_space :: "char \<Rightarrow> bool" where
  "is_space c =
     (let n = (of_char c :: nat)
      in (9 \<le> n \<and> n \<le> 13) \<or> (28 \<le> n \<and> n \<le> 32) \<or> n = 133 \<or> n = 160)"

definition strip :: "string \<Rightarrow> string" where
  "strip s = rev (dropWhile is_space (rev (dropWhile is_space s)))"

definition is_ascii :: "char \<Rightarrow> bool" where
  "is_ascii c = ((of_char c :: nat) < 128)"

text \<open>The character class \<open>[A-Z]\<close> of the regular expression, and \<open>[a-z]\<close>.\<close>

definition is_AZ :: "char \<Rightarrow> bool" where
  "is_AZ c = (let n = (of_char c :: nat) in 65 \<le> n \<and> n \<le> 90)"

definition is_az :: "char \<Rightarrow> bool" where
  "is_az c = (let n = (of_char c :: nat) in 97 \<le> n \<and> n \<le> 122)"

text \<open>
  \<open>str.upper\<close> and \<open>str.lower\<close> on one ASCII character.  Characters outside ASCII are
  left as they are: the theorems that depend on the case of a character assume ASCII
  input.
\<close>

definition to_upper :: "char \<Rightarrow> char" where
  "to_upper c = (if is_az c then char_of ((of_char c :: nat) - 32) else c)"

definition to_lower :: "char \<Rightarrow> char" where
  "to_lower c = (if is_AZ c then char_of ((of_char c :: nat) + 32) else c)"

text \<open>\<open>str.capitalize()\<close>: the first character upper-cased, all others lower-cased.\<close>

fun capitalize :: "string \<Rightarrow> string" where
  "capitalize [] = []"
| "capitalize (c # cs) = to_upper c # map to_lower cs"

section \<open>Label derivation\<close>

text \<open>
  \<open>re.sub("(.)([A-Z])", r"\1 \2", attr)\<close>: the matches are found from left to right and
  do not overlap.  At a position a match needs a character other than the newline
  (\<open>.\<close> without DOTALL) followed by a capital letter; the two characters are replaced by
  themselves with a blank between them and the search goes on after the capital.  Where
  there is no match the character is copied and the search moves one position on.
\<close>

fun re_sub_spaced :: "string \<Rightarrow> string" where
  "re_sub_spaced (c # d # rest) =
     (if c \<noteq> CHR 0x0A \<and> is_AZ d
      then c # CHR '' '' # d # re_sub_spaced rest
      else c # re_sub_spaced (d # rest))"
| "re_sub_spaced cs = cs"

definition get_helper_label_text :: "string \<Rightarrow> string" where
  "get_helper_label_text attr =
     (let spaced = re_sub_spaced attr in capitalize (strip spaced))"

text \<open>
  The label as the specification words it: a blank before each internal capital letter
  (a capital that is not the first character), then the remainder after the first
  character in lower case.  The first character is upper-cased, as the specification's
  own example (\<open>maxAlarmCount\<close> gives \<open>Max alarm count\<close>) has it.
\<close>

fun space_before_capitals :: "string \<Rightarrow> string" where
  "space_before_capitals [] = []"
| "space_before_capitals (c # cs) =
     (if is_AZ c then CHR '' '' # c # space_before_capitals cs
      else c # space_before_capitals cs)"

fun label_as_specified :: "string \<Rightarrow> string" where
  "label_as_specified [] = []"
| "label_as_specified (c # cs) = to_upper c # map to_lower (space_before_capitals cs)"

text \<open>No capital letter directly follows another capital letter.\<close>

fun no_adjacent_capitals :: "string \<Rightarrow> bool" where
  "no_adjacent_capitals (c # d # rest) =
     (\<not> (is_AZ c \<and> is_AZ d) \<and> no_adjacent_capitals (d # rest))"
| "no_adjacent_capitals cs = True"

definition plain_name :: "string \<Rightarrow> bool" where
  "plain_name attr = list_all (\<lambda>c. is_ascii c \<and> \<not> is_space c) attr"

section \<open>The table widgets\<close>

text \<open>
  A \<open>QTableWidget\<close> is modelled by its rows; a cell holds \<open>None\<close> where the table has no
  item and \<open>Some t\<close> where it has an item of text \<open>t\<close>.  The string-list table has one
  column, the dictionary table two.

  \<open>setRowCount n\<close> keeps the first \<open>n\<close> rows and appends rows without items up to \<open>n\<close>;
  \<open>setItem\<close> outside the table is ignored by Qt.
\<close>

type_synonym string_list_table = "string option list"

type_synonym dictionary_table = "(string option \<times> string option) list"

definition setRowCount :: "'r \<Rightarrow> nat \<Rightarrow> 'r list \<Rightarrow> 'r list" where
  "setRowCount empty_row n rows = take n rows @ replicate (n - length rows) empty_row"

definition setItem1 :: "nat \<Rightarrow> string \<Rightarrow> string_list_table \<Rightarrow> string_list_table" where
  "setItem1 row text rows = (if row < length rows then rows[row := Some text] else rows)"

definition setItem2 :: "nat \<Rightarrow> nat \<Rightarrow> string \<Rightarrow> dictionary_table \<Rightarrow> dictionary_table" where
  "setItem2 row col text rows =
     (if row < length rows
      then (if col = 0 then rows[row := (Some text, snd (rows ! row))]
            else if col = 1 then rows[row := (fst (rows ! row), Some text)]
            else rows)
      else rows)"

text \<open>The constructor of \<open>QTableWidget\<close>: \<open>QTableWidget(parent)\<close> has no rows,
  \<open>QTableWidget(rows, columns, parent)\<close> has \<open>rows\<close> rows without items.\<close>

definition QTableWidget_init :: "'r \<Rightarrow> (nat \<times> nat) option \<Rightarrow> 'r list" where
  "QTableWidget_init empty_row args =
     (case args of None \<Rightarrow> [] | Some (rows, columns) \<Rightarrow> replicate rows empty_row)"

section \<open>Python values\<close>

text \<open>
  The values that properties hold.  \<open>PObj s\<close> is an object of any other type, without a
  length, whose \<open>str()\<close> is \<open>s\<close>.  A list holds atoms; a nested sequence inside a list
  is an object with its own \<open>str()\<close>.
\<close>

datatype pyatom = PNone | PBool bool | PInt int | PStr string | PObj string

datatype pyval = Atom pyatom | PList "pyatom list"

text \<open>
  The exceptions of class \<open>Exception\<close>, which are the ones \<open>except Exception\<close> catches;
  \<open>Error name\<close> is one of any other subclass.
\<close>

datatype exn = AttributeError | TypeError | RuntimeError | Error string

fun truthy_atom :: "pyatom \<Rightarrow> bool" where
  "truthy_atom PNone = False"
| "truthy_atom (PBool b) = b"
| "truthy_atom (PInt i) = (i \<noteq> 0)"
| "truthy_atom (PStr s) = (s \<noteq> [])"
| "truthy_atom (PObj s) = True"

fun truthy :: "pyval \<Rightarrow> bool" where
  "truthy (Atom a) = truthy_atom a"
| "truthy (PList xs) = (xs \<noteq> [])"

definition digit_char :: "nat \<Rightarrow> char" where
  "digit_char n = char_of (48 + n)"

function str_nat :: "nat \<Rightarrow> string" where
  "str_nat n = (if n < 10 then [digit_char n] else str_nat (n div 10) @ [digit_char (n mod 10)])"
  by pat_completeness auto
termination
  by (relation "measure (\<lambda>n. n)") auto

definition str_int :: "int \<Rightarrow> string" where
  "str_int i = (if i < 0 then CHR ''-'' # str_nat (nat (- i)) else str_nat (nat i))"

text \<open>\<open>str(value)\<close> on an atom.\<close>

fun py_str :: "pyatom \<Rightarrow> string" where
  "py_str PNone = ''None''"
| "py_str (PBool b) = (if b then ''True'' else ''False'')"
| "py_str (PInt i) = str_int i"
| "py_str (PStr s) = s"
| "py_str (PObj s) = s"

text \<open>
  The elements a \<open>for\<close> loop and \<open>len\<close> see: those of a list, the characters of a string;
  \<open>None\<close> for a value without a length (\<open>len\<close> raises \<open>TypeError\<close>).
\<close>

fun py_elements :: "pyval \<Rightarrow> pyatom list option" where
  "py_elements (PList xs) = Some xs"
| "py_elements (Atom (PStr s)) = Some (map (\<lambda>c. PStr [c]) s)"
| "py_elements (Atom a) = None"

text \<open>
  A Python \<open>dict\<close> with string keys and string values, in insertion order.  Storing under
  a key that is present replaces the value and keeps the key's place.
\<close>

type_synonym pydict = "(string \<times> string) list"

fun dict_setitem :: "'k \<Rightarrow> 'v \<Rightarrow> ('k \<times> 'v) list \<Rightarrow> ('k \<times> 'v) list" where
  "dict_setitem k v [] = [(k, v)]"
| "dict_setitem k v ((k', v') # d) =
     (if k = k' then (k', v) # d else (k', v') # dict_setitem k v d)"

section \<open>StringListTable\<close>

text \<open>The getter of \<open>values\<close>: the stripped text of every row that has an item.\<close>

fun values_getter :: "string_list_table \<Rightarrow> string list" where
  "values_getter [] = []"
| "values_getter (None # items) = values_getter items"
| "values_getter (Some text # items) = strip text # values_getter items"

text \<open>
  The setter of \<open>values\<close>: \<open>values or []\<close>, then \<open>setRowCount(len(values))\<close>, which raises
  \<open>TypeError\<close> before anything is changed when the value has no length, then one item
  per element, \<open>str(value)\<close>.
\<close>

definition values_setter :: "pyval \<Rightarrow> string_list_table \<Rightarrow> exn + string_list_table" where
  "values_setter values self =
     (let values = (if truthy values then values else PList [])
      in case py_elements values of
           None \<Rightarrow> Inl TypeError
         | Some elems \<Rightarrow>
             Inr (fold (\<lambda>(row, value). setItem1 row (py_str value)) (enumerate 0 elems)
                    (setRowCount None (length elems) self)))"

text \<open>
  The constructor: the \<open>values\<close> argument is never stored; the last statement reads the
  property and drops the result.
\<close>

definition StringListTable_init :: "pyval \<Rightarrow> (nat \<times> nat) option \<Rightarrow> string_list_table" where
  "StringListTable_init values args =
     (let self = QTableWidget_init None args;
          _ = values_getter self
      in self)"

text \<open>
  The claimed result of \<open>set value(s); get value()\<close>: the elements stringified and
  trimmed, those that are then empty dropped.
\<close>

definition values_as_specified :: "pyatom list \<Rightarrow> string list" where
  "values_as_specified s = filter (\<lambda>t. t \<noteq> []) (map (\<lambda>x. strip (py_str x)) s)"

section \<open>DictionaryTable\<close>

definition item_text :: "string option \<Rightarrow> string" where
  "item_text item = (case item of None \<Rightarrow> [] | Some text \<Rightarrow> text)"

text \<open>The getter of \<open>dictionary\<close>: the rows in order, stored under the stripped key.\<close>

definition dictionary_getter :: "dictionary_table \<Rightarrow> pydict" where
  "dictionary_getter self =
     (let items = self;
          key_value_pairs = map (\<lambda>(key, value). (item_text key, item_text value)) items
      in fold (\<lambda>(key, value) d. dict_setitem (strip key) value d) key_value_pairs [])"

text \<open>The setter of \<open>dictionary\<close>: \<open>dct or {}\<close>, one row per entry in iteration order.\<close>

definition dictionary_setter :: "pydict option \<Rightarrow> dictionary_table \<Rightarrow> dictionary_table" where
  "dictionary_setter dct self =
     (let dct = (case dct of None \<Rightarrow> [] | Some d \<Rightarrow> d)
      in fold (\<lambda>(row, (key, value)) t. setItem2 row 1 value (setItem2 row 0 key t))
           (enumerate 0 dct)
           (setRowCount (None, None) (length dct) self))"

definition DictionaryTable_init :: "pydict option \<Rightarrow> (nat \<times> nat) option \<Rightarrow> dictionary_table" where
  "DictionaryTable_init dictionary args =
     dictionary_setter dictionary (QTableWidget_init (None, None) args)"

text \<open>
  The mapping the specification describes: the entries \<open>(trim k, v)\<close> stored in iteration
  order, a later entry replacing an earlier one with the same trimmed key.
\<close>

definition mapping_as_specified :: "pydict \<Rightarrow> (string \<rightharpoonup> string)" where
  "mapping_as_specified m = fold (\<lambda>(k, v) f. f(strip k \<mapsto> v)) m Map.empty"

text \<open>The order in which keys enter a dictionary: each key where it first occurs.\<close>

definition insertion_order :: "'k list \<Rightarrow> 'k list" where
  "insertion_order ks = fold (\<lambda>k acc. if k \<in> set acc then acc else acc @ [k]) ks []"

text \<open>\<open>set value(s); get value()\<close> on a string-list table in state \<open>self\<close>; an exception
  of the setter is the result.\<close>

definition values_set_then_get :: "pyval \<Rightarrow> string_list_table \<Rightarrow> exn + string list" where
  "values_set_then_get values self =
     (case values_setter values self of
        Inl e \<Rightarrow> Inl e
      | Inr self' \<Rightarrow> Inr (values_getter self'))"

section \<open>The widget being edited\<close>

text \<open>
  The class of the widget, as far as the editor looks at it: the properties of its Qt
  meta object in index order (\<open>meta_obj.property(i)\<close> may be \<open>None\<close>), and the
  attributes of the Python class that are not \<open>None\<close>, each with the value of its own
  \<open>type\<close> attribute when it has one.
\<close>

datatype pytype = Ty_str | Ty_int | Ty_bool | Ty_name string | Ty_other string

record qmeta_property =
  prop_name :: string
  isDesignable :: bool

record widget_class =
  staticMetaObject :: "qmeta_property option list"
  class_attrs :: "(string \<times> pytype option) list"

text \<open>
  The widget: its class, its object name, the values of its attributes, the attributes
  whose getter or setter raises, whether it sits in a form window of the designer, and
  the properties set through that form window's cursor so far.
\<close>

record target =
  widget_type :: widget_class
  objectName :: string
  attrs :: "(string \<times> pyval) list"
  raising_getters :: "(string \<times> exn) list"
  raising_setters :: "(string \<times> exn) list"
  formWindow :: bool
  cursor_properties :: "(string \<times> pyval) list"

text \<open>\<open>getattr(obj, name)\<close> and \<open>getattr(obj, name, default)\<close>: the default replaces an
  \<open>AttributeError\<close> only.\<close>

definition py_getattr :: "target \<Rightarrow> string \<Rightarrow> exn + pyval" where
  "py_getattr w attr =
     (case map_of (raising_getters w) attr of
        Some e \<Rightarrow> Inl e
      | None \<Rightarrow> (case map_of (attrs w) attr of
                   Some v \<Rightarrow> Inr v
                 | None \<Rightarrow> Inl AttributeError))"

definition py_getattr_default :: "target \<Rightarrow> string \<Rightarrow> pyval \<Rightarrow> exn + pyval" where
  "py_getattr_default w attr dflt =
     (case py_getattr w attr of
        Inl e \<Rightarrow> (if e = AttributeError then Inr dflt else Inl e)
      | Inr v \<Rightarrow> Inr v)"

definition py_setattr :: "target \<Rightarrow> string \<Rightarrow> pyval \<Rightarrow> exn + target" where
  "py_setattr w attr v =
     (case map_of (raising_setters w) attr of
        Some e \<Rightarrow> Inl e
      | None \<Rightarrow> Inr (w\<lparr>attrs := dict_setitem attr v (attrs w)\<rparr>))"

text \<open>What the logger receives.\<close>

datatype helper_cls =
    PropertyHelper | PropertyRuleEditor | PropertyCheckbox | PropertyLineEdit
  | PropertyIntSpinBox | PropertyMacroTable | PropertyStringList

datatype log_entry =
    Info_updating string string pyval
  | Exception_set_state helper_cls string pyval exn
  | Exception_parse_macro pyval exn
  | Exception_save string string pyval exn

text \<open>
  \<open>update_property_for_widget\<close>: the info line, then the property set through the form
  window's cursor when the widget has a form window, and by \<open>setattr\<close> otherwise.
\<close>

definition update_property_for_widget ::
    "target \<Rightarrow> string \<Rightarrow> pyval \<Rightarrow> log_entry list \<times> (exn + target)" where
  "update_property_for_widget w attr v =
     ([Info_updating (objectName w) attr v],
      (if formWindow w
       then (case py_setattr w attr v of
               Inl e \<Rightarrow> Inl e
             | Inr w' \<Rightarrow> Inr (w'\<lparr>cursor_properties := cursor_properties w' @ [(attr, v)]\<rparr>))
       else py_setattr w attr v))"

section \<open>The property helpers\<close>

text \<open>
  The two functions of the repository that the helpers call and that are not part of
  this file's source: \<open>parse_macro_string\<close> of the macro utilities, and \<open>json.dumps\<close>
  on a dictionary of strings.
\<close>

record env =
  parse_macro_string :: "pyval \<Rightarrow> exn + pydict"
  json_dumps :: "pydict \<Rightarrow> string"

text \<open>
  The state of the Qt widget a helper is mixed with.  \<open>NoControl\<close> is a helper of the
  base class \<open>_PropertyHelper\<close> itself.
\<close>

datatype control =
    NoControl
  | RuleButton
  | CheckBox bool
  | LineEdit string
  | SpinBox int
  | MacroTable dictionary_table
  | StringList string_list_table

record helper =
  property_name :: string
  control :: control

fun class_of :: "control \<Rightarrow> helper_cls" where
  "class_of NoControl = PropertyHelper"
| "class_of RuleButton = PropertyRuleEditor"
| "class_of (CheckBox b) = PropertyCheckbox"
| "class_of (LineEdit t) = PropertyLineEdit"
| "class_of (SpinBox i) = PropertyIntSpinBox"
| "class_of (MacroTable t) = PropertyMacroTable"
| "class_of (StringList t) = PropertyStringList"

text \<open>The widget as its Qt constructor and the table constructors leave it.\<close>

fun default_control :: "helper_cls \<Rightarrow> control" where
  "default_control PropertyHelper = NoControl"
| "default_control PropertyRuleEditor = RuleButton"
| "default_control PropertyCheckbox = CheckBox False"
| "default_control PropertyLineEdit = LineEdit []"
| "default_control PropertyIntSpinBox = SpinBox 0"
| "default_control PropertyMacroTable = MacroTable (DictionaryTable_init None None)"
| "default_control PropertyStringList = StringList (StringListTable_init (Atom PNone) None)"

definition py_or :: "pyval \<Rightarrow> pyval \<Rightarrow> pyval" where
  "py_or v dflt = (if truthy v then v else dflt)"

text \<open>
  \<open>QSpinBox.setValue\<close>: an \<open>int\<close> (or \<open>bool\<close>) that fits a C int, brought into the spin
  box's range, which is 0 to 99 on a spin box nobody configured.
\<close>

definition spinbox_setValue :: "pyval \<Rightarrow> exn + int" where
  "spinbox_setValue v =
     (case v of
        Atom (PInt i) \<Rightarrow>
          (if - 2147483648 \<le> i \<and> i \<le> 2147483647 then Inr (max 0 (min 99 i))
           else Inl (Error ''OverflowError''))
      | Atom (PBool b) \<Rightarrow> Inr (if b then 1 else 0)
      | _ \<Rightarrow> Inl TypeError)"

text \<open>
  \<open>set_value_from_widget\<close> of each class, on the widget state \<open>self\<close>: the log lines it
  writes and the new state, or the exception it raises.
\<close>

fun set_value_from_widget ::
    "env \<Rightarrow> control \<Rightarrow> pyval \<Rightarrow> log_entry list \<times> (exn + control)" where
  "set_value_from_widget ev NoControl v = ([], Inr NoControl)"
| "set_value_from_widget ev RuleButton v = ([], Inr RuleButton)"
| "set_value_from_widget ev (CheckBox b) v = ([], Inr (CheckBox (truthy v)))"
| "set_value_from_widget ev (LineEdit t) v =
     (case py_or v (Atom (PStr [])) of
        Atom (PStr s) \<Rightarrow> ([], Inr (LineEdit s))
      | _ \<Rightarrow> ([], Inl TypeError))"
| "set_value_from_widget ev (SpinBox i) v =
     (case spinbox_setValue v of
        Inl e \<Rightarrow> ([], Inl e)
      | Inr j \<Rightarrow> ([], Inr (SpinBox j)))"
| "set_value_from_widget ev (MacroTable t) v =
     (case parse_macro_string ev (py_or v (Atom (PStr []))) of
        Inl e \<Rightarrow> ([Exception_parse_macro v e], Inr (MacroTable t))
      | Inr macros \<Rightarrow> ([], Inr (MacroTable (dictionary_setter (Some macros) t))))"
| "set_value_from_widget ev (StringList t) v =
     (case values_setter v t of
        Inl e \<Rightarrow> ([], Inl e)
      | Inr t' \<Rightarrow> ([], Inr (StringList t')))"

text \<open>The property \<open>value_from_widget\<close>: \<open>getattr(widget, name, None)\<close>.\<close>

definition value_from_widget :: "target \<Rightarrow> string \<Rightarrow> exn + pyval" where
  "value_from_widget w attr = py_getattr_default w attr (Atom PNone)"

text \<open>
  \<open>_PropertyHelper.__init__\<close>: the Qt side is constructed first; the value is read and
  shown inside \<open>try\<close>, and \<open>except Exception\<close> logs whatever was raised, with the value
  read so far (\<open>None\<close> when the read itself raised).
\<close>

definition PropertyHelper_init ::
    "env \<Rightarrow> helper_cls \<Rightarrow> target \<Rightarrow> string \<Rightarrow> helper \<times> log_entry list" where
  "PropertyHelper_init ev cls w attr =
     (let self = default_control cls
      in case value_from_widget w attr of
           Inl e \<Rightarrow>
             (\<lparr>property_name = attr, control = self\<rparr>,
              [Exception_set_state cls attr (Atom PNone) e])
         | Inr v \<Rightarrow>
             (case set_value_from_widget ev self v of
                (lg, Inl e) \<Rightarrow>
                  (\<lparr>property_name = attr, control = self\<rparr>,
                   lg @ [Exception_set_state cls attr v e])
              | (lg, Inr self') \<Rightarrow>
                  (\<lparr>property_name = attr, control = self'\<rparr>, lg)))"

text \<open>\<open>saved_value\<close> of each class; the base class raises (\<open>raise None\<close> is a
  \<open>TypeError\<close>).\<close>

fun saved_value :: "env \<Rightarrow> control \<Rightarrow> exn + pyval" where
  "saved_value ev NoControl = Inl TypeError"
| "saved_value ev RuleButton = Inr (Atom PNone)"
| "saved_value ev (CheckBox b) = Inr (Atom (PBool b))"
| "saved_value ev (LineEdit t) = Inr (Atom (PStr (strip t)))"
| "saved_value ev (SpinBox i) = Inr (Atom (PInt i))"
| "saved_value ev (MacroTable t) = Inr (Atom (PStr (json_dumps ev (dictionary_getter t))))"
| "saved_value ev (StringList t) = Inr (PList (map PStr (values_getter t)))"

definition save_settings :: "env \<Rightarrow> helper \<Rightarrow> target \<Rightarrow> log_entry list \<times> (exn + target)" where
  "save_settings ev h w =
     (case saved_value ev (control h) of
        Inl e \<Rightarrow> ([], Inl e)
      | Inr v \<Rightarrow>
          (if v \<noteq> Atom PNone then update_property_for_widget w (property_name h) v
           else ([], Inr w)))"

section \<open>Discovery and dispatch\<close>

text \<open>\<open>get_qt_properties\<close>: the names of the designable properties, in index order.\<close>

fun get_qt_properties_loop :: "qmeta_property option list \<Rightarrow> string list" where
  "get_qt_properties_loop [] = []"
| "get_qt_properties_loop (None # props) = get_qt_properties_loop props"
| "get_qt_properties_loop (Some prop # props) =
     (if isDesignable prop then prop_name prop # get_qt_properties_loop props
      else get_qt_properties_loop props)"

definition get_qt_properties :: "widget_class \<Rightarrow> string list" where
  "get_qt_properties cls = get_qt_properties_loop (staticMetaObject cls)"

text \<open>The two class-level tables of \<open>BasicSettingsEditor\<close>, in the order they are
  written.\<close>

definition common_attributes :: "(string \<times> helper_cls) list" where
  "common_attributes =
     [(''channel'', PropertyLineEdit),
      (''display'', PropertyLineEdit),
      (''macros'', PropertyMacroTable),
      (''filenames'', PropertyStringList),
      (''rules'', PropertyRuleEditor)]"

definition type_to_widget :: "(pytype \<times> helper_cls) list" where
  "type_to_widget =
     [(Ty_str, PropertyLineEdit),
      (Ty_int, PropertyIntSpinBox),
      (Ty_bool, PropertyCheckbox),
      (Ty_name ''QStringList'', PropertyStringList)]"

text \<open>\<open>d.get(key, default)\<close>, with \<open>None\<close> for Python's \<open>None\<close>.\<close>

definition dict_get :: "('k \<times> 'v) list \<Rightarrow> 'k \<Rightarrow> 'v option \<Rightarrow> 'v option" where
  "dict_get d k dflt = (case map_of d k of Some v \<Rightarrow> Some v | None \<Rightarrow> dflt)"

text \<open>\<open>self._type_to_widget_.get(prop_type, None)\<close>, where \<open>prop_type\<close> is \<open>None\<close> for
  an attribute without a \<open>type\<close>; \<open>None\<close> is no key of the table.\<close>

definition type_to_widget_get :: "pytype option \<Rightarrow> helper_cls option" where
  "type_to_widget_get prop_type =
     (case prop_type of None \<Rightarrow> None | Some t \<Rightarrow> dict_get type_to_widget t None)"

definition helper_widget_cls :: "string \<Rightarrow> pytype option \<Rightarrow> helper_cls option" where
  "helper_widget_cls attr prop_type =
     dict_get common_attributes attr (type_to_widget_get prop_type)"

definition other_attrs :: "widget_class \<Rightarrow> string list" where
  "other_attrs cls =
     filter (\<lambda>attr. map_of common_attributes attr = None) (sort (get_qt_properties cls))"

text \<open>
  The loop of \<open>_create_helper_widgets\<close>.  For every helper it yields, the row of the form
  (the label with its accelerator mark), the helper, and what constructing the helper
  logged.
\<close>

fun create_helper_widgets_loop ::
    "env \<Rightarrow> target \<Rightarrow> string list \<Rightarrow> (string \<times> helper \<times> log_entry list) list" where
  "create_helper_widgets_loop ev w [] = []"
| "create_helper_widgets_loop ev w (attr # rest) =
     (case map_of (class_attrs (widget_type w)) attr of
        None \<Rightarrow> create_helper_widgets_loop ev w rest
      | Some prop_type \<Rightarrow>
          (case helper_widget_cls attr prop_type of
             None \<Rightarrow> create_helper_widgets_loop ev w rest
           | Some cls \<Rightarrow>
               (let (helper_widget, lg) = PropertyHelper_init ev cls w attr;
                    label_text = get_helper_label_text attr
                in (CHR ''&'' # label_text, helper_widget, lg)
                     # create_helper_widgets_loop ev w rest)))"

definition create_helper_widgets ::
    "env \<Rightarrow> target \<Rightarrow> (string \<times> helper \<times> log_entry list) list" where
  "create_helper_widgets ev w =
     create_helper_widgets_loop ev w
       (map fst common_attributes @ other_attrs (widget_type w))"

section \<open>The settings session\<close>

datatype dialog_state = Open | Accepted | Closed

record session =
  widget :: target
  property_widgets :: "helper list"
  form_rows :: "string list"
  dialog :: dialog_state
  logged :: "log_entry list"

text \<open>The constructor with \<open>setup_ui\<close>: the helpers in the order they are yielded.\<close>

definition BasicSettingsEditor_init :: "env \<Rightarrow> target \<Rightarrow> session" where
  "BasicSettingsEditor_init ev w =
     (let rows = create_helper_widgets ev w
      in \<lparr>widget = w,
          property_widgets = map (\<lambda>(label, h, lg). h) rows,
          form_rows = map (\<lambda>(label, h, lg). label) rows,
          dialog = Open,
          logged = concat (map (\<lambda>(label, h, lg). lg) rows)\<rparr>)"

text \<open>
  The loop of \<open>save_changes\<close>, on the widget and the log.  The handler of
  \<open>except Exception\<close> evaluates \<open>helper.saved_value\<close> again for its log line; an
  exception raised there leaves the loop and the method.  The result is the widget and
  the log as they are when the loop ends, and the exception that left it, if any.
\<close>

fun save_changes_loop ::
    "env \<Rightarrow> helper list \<Rightarrow> target \<Rightarrow> log_entry list \<Rightarrow> target \<times> log_entry list \<times> exn option" where
  "save_changes_loop ev [] w lg = (w, lg, None)"
| "save_changes_loop ev (h # hs) w lg =
     (case save_settings ev h w of
        (lg1, Inr w') \<Rightarrow> save_changes_loop ev hs w' (lg @ lg1)
      | (lg1, Inl e) \<Rightarrow>
          (case saved_value ev (control h) of
             Inl e' \<Rightarrow> (w, lg @ lg1, Some e')
           | Inr v \<Rightarrow>
               save_changes_loop ev hs w
                 (lg @ lg1 @ [Exception_save (objectName w) (property_name h) v e])))"

text \<open>\<open>save_changes\<close>: \<open>self.accept()\<close> is reached when the loop ends without an
  exception.\<close>

definition save_changes :: "env \<Rightarrow> session \<Rightarrow> session \<times> exn option" where
  "save_changes ev s =
     (case save_changes_loop ev (property_widgets s) (widget s) (logged s) of
        (w, lg, None) \<Rightarrow> (s\<lparr>widget := w, logged := lg, dialog := Accepted\<rparr>, None)
      | (w, lg, Some e) \<Rightarrow> (s\<lparr>widget := w, logged := lg\<rparr>, Some e))"

definition cancel_changes :: "session \<Rightarrow> session" where
  "cancel_changes s = s\<lparr>dialog := Closed\<rparr>"

text \<open>
  What the user does while the dialog is open: change the state of one helper's widget
  (typing, ticking, the actions of a table's context menu), or press the button of a
  rule editor, which runs the rules editor on the widget itself; \<open>f\<close> is what that
  dialog does to the widget.
\<close>

datatype user_action = EditControl nat control | OpenRulesEditor "target \<Rightarrow> target"

fun user_step :: "user_action \<Rightarrow> session \<Rightarrow> session" where
  "user_step (EditControl i c) s =
     (if dialog s = Open \<and> i < length (property_widgets s)
         \<and> class_of c = class_of (control (property_widgets s ! i))
      then s\<lparr>property_widgets :=
               (property_widgets s)[i := (property_widgets s ! i)\<lparr>control := c\<rparr>]\<rparr>
      else s)"
| "user_step (OpenRulesEditor f) s =
     (if dialog s = Open \<and> list_ex (\<lambda>h. control h = RuleButton) (property_widgets s)
      then s\<lparr>widget := f (widget s)\<rparr>
      else s)"

text \<open>The changes the rules editor made in a sequence of actions, in order.\<close>

fun rules_editor_effect :: "user_action list \<Rightarrow> target \<Rightarrow> target" where
  "rules_editor_effect [] w = w"
| "rules_editor_effect (EditControl i c # as) w = rules_editor_effect as w"
| "rules_editor_effect (OpenRulesEditor f # as) w = rules_editor_effect as (f w)"

fun is_edit :: "user_action \<Rightarrow> bool" where
  "is_edit (EditControl i c) = True"
| "is_edit (OpenRulesEditor f) = False"

section \<open>Notions used in the statements\<close>

text \<open>The class has a non-\<open>None\<close> attribute of that name.\<close>

definition declares :: "widget_class \<Rightarrow> string \<Rightarrow> bool" where
  "declares cls attr = (map_of (class_attrs cls) attr \<noteq> None)"

text \<open>The class has the attribute and the attribute's \<open>type\<close> is a key of the type
  table.\<close>

definition type_selected :: "widget_class \<Rightarrow> string \<Rightarrow> bool" where
  "type_selected cls attr =
     (case map_of (class_attrs cls) attr of
        None \<Rightarrow> False
      | Some prop_type \<Rightarrow> type_to_widget_get prop_type \<noteq> None)"

text \<open>The class has the attribute and one of the two tables gives a helper for it.\<close>

definition has_editor :: "widget_class \<Rightarrow> string \<Rightarrow> bool" where
  "has_editor cls attr =
     (case map_of (class_attrs cls) attr of
        None \<Rightarrow> False
      | Some prop_type \<Rightarrow> helper_widget_cls attr prop_type \<noteq> None)"

text \<open>The recognized, designable properties of the specification's invariant: the
  designable properties for which the tables give a helper.\<close>

definition recognized_designable :: "widget_class \<Rightarrow> string list" where
  "recognized_designable cls = filter (has_editor cls) (get_qt_properties cls)"

definition editor_names :: "session \<Rightarrow> string list" where
  "editor_names s = map property_name (property_widgets s)"

definition has_rule_editor :: "session \<Rightarrow> bool" where
  "has_rule_editor s = list_ex (\<lambda>h. control h = RuleButton) (property_widgets s)"

text \<open>The names of the designable properties, read off the meta object.\<close>

definition designable_names :: "widget_class \<Rightarrow> string list" where
  "designable_names cls =
     map prop_name (filter isDesignable (List.map_filter (\<lambda>p. p) (staticMetaObject cls)))"

text \<open>
  The editor order as the specification words it: the well-known names the class
  declares, then all remaining designable properties not already included, sorted.
\<close>

definition editor_order_as_specified :: "widget_class \<Rightarrow> string list" where
  "editor_order_as_specified cls =
     (let first = filter (declares cls)
                    [''channel'', ''display'', ''macros'', ''filenames'', ''rules'']
      in first @ sort (filter (\<lambda>a. a \<notin> set first) (designable_names cls)))"

text \<open>
  The session the dialog builds on a widget, after what the user did in it.
\<close>

definition session_after :: "env \<Rightarrow> target \<Rightarrow> user_action list \<Rightarrow> session" where
  "session_after ev w actions = fold user_step actions (BasicSettingsEditor_init ev w)"

text \<open>
  One pass of the loop of \<open>save_changes\<close> for one helper that never stops the loop:
  the helper's \<open>save_settings\<close> on the widget, and, where it raised, the handler's log
  line on the unchanged widget.
\<close>

definition save_step :: "env \<Rightarrow> helper \<Rightarrow> target \<times> log_entry list \<Rightarrow> target \<times> log_entry list" where
  "save_step ev h st =
     (case save_settings ev h (fst st) of
        (lg1, Inr w') \<Rightarrow> (w', snd st @ lg1)
      | (lg1, Inl e) \<Rightarrow>
          (fst st,
           snd st @ lg1
             @ (case saved_value ev (control h) of
                  Inl e' \<Rightarrow> []
                | Inr v \<Rightarrow> [Exception_save (objectName (fst st)) (property_name h) v e])))"

text \<open>The helper has a value to save: \<open>saved_value\<close> returns something other than
  \<open>None\<close>.\<close>

definition has_value :: "env \<Rightarrow> helper \<Rightarrow> bool" where
  "has_value ev h =
     (case saved_value ev (control h) of Inl e \<Rightarrow> False | Inr v \<Rightarrow> v \<noteq> Atom PNone)"

text \<open>The properties for which \<open>update_property_for_widget\<close> was entered, in the order
  of the log.\<close>

fun updated_names :: "log_entry list \<Rightarrow> string list" where
  "updated_names [] = []"
| "updated_names (Info_updating obj attr v # lg) = attr # updated_names lg"
| "updated_names (entry # lg) = updated_names lg"

section \<open>Example inputs\<close>

text \<open>An environment whose macro parser accepts the empty string only.\<close>

definition example_env :: env where
  "example_env =
     \<lparr>parse_macro_string =
        (\<lambda>v. case v of
               Atom (PStr s) \<Rightarrow> (if s = [] then Inr [] else Inl (Error ''ValueError''))
             | _ \<Rightarrow> Inl TypeError),
      json_dumps = (\<lambda>d. if d = [] then ''{}'' else ''{...}'')\<rparr>"

text \<open>A class with the designable properties zeta, channel, alpha and macros.\<close>

definition example_class :: widget_class where
  "example_class =
     \<lparr>staticMetaObject =
        [Some \<lparr>prop_name = ''zeta'', isDesignable = True\<rparr>,
         Some \<lparr>prop_name = ''channel'', isDesignable = True\<rparr>,
         Some \<lparr>prop_name = ''alpha'', isDesignable = True\<rparr>,
         Some \<lparr>prop_name = ''macros'', isDesignable = True\<rparr>],
      class_attrs =
        [(''zeta'', Some Ty_str), (''channel'', Some Ty_str),
         (''alpha'', Some Ty_int), (''macros'', Some Ty_str)]\<rparr>"

definition example_widget :: target where
  "example_widget =
     \<lparr>widget_type = example_class,
      objectName = ''label_1'',
      attrs = [(''zeta'', Atom (PStr ''z'')), (''channel'', Atom (PStr ''ca://PV'')),
               (''alpha'', Atom (PInt 3)), (''macros'', Atom (PStr []))],
      raising_getters = [],
      raising_setters = [],
      formWindow = False,
      cursor_properties = []\<rparr>"

text \<open>The same widget with a getter of \<open>channel\<close> that raises, and with a macro string
  the parser refuses.\<close>

definition broken_getter_widget :: target where
  "broken_getter_widget = example_widget\<lparr>raising_getters := [(''channel'', RuntimeError)]\<rparr>"

definition bad_macros_widget :: target where
  "bad_macros_widget =
     example_widget\<lparr>attrs := [(''channel'', Atom (PStr ''ca://PV'')),
                              (''macros'', Atom (PStr ''a=''))]\<rparr>"

text \<open>A class that declares \<open>rules\<close> as a property that is not designable, next to a
  designable \<open>channel\<close>.\<close>

definition rules_class :: widget_class where
  "rules_class =
     \<lparr>staticMetaObject =
        [Some \<lparr>prop_name = ''channel'', isDesignable = True\<rparr>,
         Some \<lparr>prop_name = ''rules'', isDesignable = False\<rparr>],
      class_attrs = [(''channel'', Some Ty_str), (''rules'', Some Ty_str)]\<rparr>"

definition rules_widget :: target where
  "rules_widget =
     \<lparr>widget_type = rules_class,
      objectName = ''label_2'',
      attrs = [(''channel'', Atom (PStr ''ca://PV'')), (''rules'', Atom (PStr ''[]''))],
      raising_getters = [],
      raising_setters = [],
      formWindow = False,
      cursor_properties = []\<rparr>"

text \<open>The example widget with a setter of \<open>channel\<close> that raises.\<close>

definition raising_setter_widget :: target where
  "raising_setter_widget = example_widget\<lparr>raising_setters := [(''channel'', RuntimeError)]\<rparr>"

text \<open>The example widget with a getter of \<open>channel\<close> that raises \<open>AttributeError\<close>.\<close>

definition attribute_error_widget :: target where
  "attribute_error_widget =
     example_widget\<lparr>raising_getters := [(''channel'', AttributeError)]\<rparr>"

text \<open>
  A class with the designable properties objectName (a method without a \<open>type\<close>), Zeta,
  channel, speed (a \<open>float\<close>) and alpha, and a property hidden that is not designable.
\<close>

definition mixed_class :: widget_class where
  "mixed_class =
     \<lparr>staticMetaObject =
        [Some \<lparr>prop_name = ''objectName'', isDesignable = True\<rparr>,
         Some \<lparr>prop_name = ''hidden'', isDesignable = False\<rparr>,
         Some \<lparr>prop_name = ''Zeta'', isDesignable = True\<rparr>,
         Some \<lparr>prop_name = ''channel'', isDesignable = True\<rparr>,
         Some \<lparr>prop_name = ''speed'', isDesignable = True\<rparr>,
         Some \<lparr>prop_name = ''alpha'', isDesignable = True\<rparr>],
      class_attrs =
        [(''objectName'', None), (''hidden'', Some Ty_str), (''Zeta'', Some Ty_str),
         (''channel'', Some Ty_str), (''speed'', Some (Ty_other ''float'')),
         (''alpha'', Some Ty_int)]\<rparr>"

definition mixed_widget :: target where
  "mixed_widget =
     \<lparr>widget_type = mixed_class,
      objectName = ''label_3'',
      attrs = [(''hidden'', Atom (PStr ''h'')), (''Zeta'', Atom (PStr ''z'')),
               (''channel'', Atom (PStr ''ca://PV'')), (''alpha'', Atom (PInt 3))],
      raising_getters = [],
      raising_setters = [],
      formWindow = False,
      cursor_properties = []\<rparr>"

section \<open>Properties of the table widgets\<close>

lemma length_setRowCount: "length (setRowCount e n rows) = n"
  by (simp add: setRowCount_def)

lemma fold_setItem1:
  "length tbl = k + length vs \<Longrightarrow>
   fold (\<lambda>(row, v). setItem1 row (f v)) (enumerate k vs) tbl
     = take k tbl @ map (\<lambda>v. Some (f v)) vs"
proof (induction vs arbitrary: k tbl)
  case Nil
  then show ?case by simp
next
  case (Cons v vs)
  have len: "length (setItem1 k (f v) tbl) = Suc k + length vs"
    using Cons.prems by (simp add: setItem1_def)
  have k: "k < length tbl" using Cons.prems by simp
  have "take (Suc k) (setItem1 k (f v) tbl) = take k tbl @ [Some (f v)]"
    using k by (simp add: setItem1_def take_Suc_conv_app_nth)
  then show ?case
    using Cons.IH [OF len] by simp
qed

lemma values_getter_items:
  "values_getter (map (\<lambda>v. Some (f v)) vs) = map (\<lambda>v. strip (f v)) vs"
  by (induction vs) auto

lemma values_getter_no_items: "values_getter (replicate n None) = []"
  by (induction n) auto

lemma values_setter_PList:
  "values_setter (PList s) self = Inr (map (\<lambda>x. Some (py_str x)) s)"
proof (cases "s = []")
  case True
  then show ?thesis by (simp add: values_setter_def setRowCount_def)
next
  case False
  have "length (setRowCount None (length s) self) = 0 + length s"
    by (simp add: length_setRowCount)
  from fold_setItem1 [OF this, of py_str] False show ?thesis
    by (simp add: values_setter_def)
qed

lemma fold_setItem2:
  "length tbl = k + length m \<Longrightarrow>
   fold (\<lambda>(row, (key, value)) t. setItem2 row 1 value (setItem2 row 0 key t)) (enumerate k m) tbl
     = take k tbl @ map (\<lambda>(key, value). (Some key, Some value)) m"
proof (induction m arbitrary: k tbl)
  case Nil
  then show ?case by simp
next
  case (Cons kv m)
  obtain key val where kv: "kv = (key, val)" by (cases kv)
  let ?t = "setItem2 k 1 val (setItem2 k 0 key tbl)"
  have k: "k < length tbl" using Cons.prems by simp
  have len: "length ?t = Suc k + length m"
    using Cons.prems by (simp add: setItem2_def)
  have "take (Suc k) ?t = take k tbl @ [(Some key, Some val)]"
    using k by (simp add: setItem2_def take_Suc_conv_app_nth)
  then show ?case
    using Cons.IH [OF len] by (simp add: kv)
qed

lemma dictionary_setter_rows:
  "dictionary_setter (Some m) self = map (\<lambda>(key, value). (Some key, Some value)) m"
proof -
  have "length (setRowCount (None, None) (length m) self) = 0 + length m"
    by (simp add: length_setRowCount)
  from fold_setItem2 [OF this] show ?thesis
    by (simp add: dictionary_setter_def)
qed

lemma map_of_dict_setitem: "map_of (dict_setitem k v d) = (map_of d)(k \<mapsto> v)"
  by (induction d) (auto simp: fun_upd_twist)

lemma keys_dict_setitem:
  "map fst (dict_setitem k v d) = (if k \<in> set (map fst d) then map fst d else map fst d @ [k])"
  by (induction d) force+

lemma distinct_dict_setitem:
  "distinct (map fst d) \<Longrightarrow> distinct (map fst (dict_setitem k v d))"
  by (simp add: keys_dict_setitem)

lemma map_of_fold_dict_setitem:
  "map_of (fold (\<lambda>(key, value) d. dict_setitem (strip key) value d) m d0)
     = fold (\<lambda>(k, v) f. f(strip k \<mapsto> v)) m (map_of d0)"
  by (induction m arbitrary: d0) (auto simp: map_of_dict_setitem)

lemma distinct_fold_dict_setitem:
  "distinct (map fst d0) \<Longrightarrow>
   distinct (map fst (fold (\<lambda>(key, value) d. dict_setitem (strip key) value d) m d0))"
  by (induction m arbitrary: d0) (auto simp: distinct_dict_setitem)

lemma keys_fold_dict_setitem:
  "map fst (fold (\<lambda>(key, value) d. dict_setitem (strip key) value d) m d0)
     = fold (\<lambda>k acc. if k \<in> set acc then acc else acc @ [k]) (map (\<lambda>(k, v). strip k) m)
         (map fst d0)"
proof (induction m arbitrary: d0)
  case Nil
  then show ?case by simp
next
  case (Cons kv m)
  obtain key val where kv: "kv = (key, val)" by (cases kv)
  show ?case
    using Cons.IH [of "dict_setitem (strip key) val d0"]
    by (simp add: kv keys_dict_setitem)
qed

lemma item_text_of_rows:
  "map ((\<lambda>(key, value). (item_text key, item_text value))
          \<circ> (\<lambda>(key, value). (Some key, Some value))) m = m"
  by (induction m) (auto simp: item_text_def)

lemma dictionary_getter_rows:
  "dictionary_getter (map (\<lambda>(key, value). (Some key, Some value)) m)
     = fold (\<lambda>(key, value) d. dict_setitem (strip key) value d) m []"
  by (simp add: dictionary_getter_def item_text_of_rows)

text \<open>
  C3.  On the map editor, \<open>set value(m)\<close> followed by \<open>get value()\<close>, whatever the table
  held before, gives the mapping that stores \<open>(trim k, v)\<close> for each entry of \<open>m\<close> in
  iteration order, a later entry replacing an earlier one with the same trimmed key; the
  values are not trimmed.  The result has each key once, at the place of its first
  occurrence.
\<close>

theorem dictionary_set_then_get:
  "map_of (dictionary_getter (dictionary_setter (Some m) self)) = mapping_as_specified m
   \<and> distinct (map fst (dictionary_getter (dictionary_setter (Some m) self)))
   \<and> map fst (dictionary_getter (dictionary_setter (Some m) self))
       = insertion_order (map (\<lambda>(k, v). strip k) m)
   \<and> dictionary_getter
        (dictionary_setter (Some [('' a'', ''1 ''), (''b'', '' 2''), (''a  '', ''3'')])
           [(None, Some ''q''), (Some ''r'', None)])
       = [(''a'', ''3''), (''b'', '' 2'')]"
proof (intro conjI)
  show "dictionary_getter
        (dictionary_setter (Some [('' a'', ''1 ''), (''b'', '' 2''), (''a  '', ''3'')])
           [(None, Some ''q''), (Some ''r'', None)])
       = [(''a'', ''3''), (''b'', '' 2'')]"
    by code_simp
  show "map_of (dictionary_getter (dictionary_setter (Some m) self)) = mapping_as_specified m"
    by (simp add: dictionary_setter_rows dictionary_getter_rows map_of_fold_dict_setitem
        mapping_as_specified_def)
  show "distinct (map fst (dictionary_getter (dictionary_setter (Some m) self)))"
    by (simp add: dictionary_setter_rows dictionary_getter_rows distinct_fold_dict_setitem)
  show "map fst (dictionary_getter (dictionary_setter (Some m) self))
       = insertion_order (map (\<lambda>(k, v). strip k) m)"
    by (simp add: dictionary_setter_rows dictionary_getter_rows keys_fold_dict_setitem
        insertion_order_def)
qed

text \<open>
  C4, as the code has it.  On the string-list editor, \<open>set value(s)\<close> followed by
  \<open>get value()\<close> returns one string per element of \<open>s\<close>, in order: the element
  stringified and trimmed.  No element is dropped; an element that stringifies to an
  empty or blank string comes back as the empty string.
\<close>

theorem values_set_then_get_all:
  "values_set_then_get (PList s) self = Inr (map (\<lambda>x. strip (py_str x)) s)
   \<and> values_set_then_get (PList [PStr '' a b '', PInt (- 120), PStr ''  '', PNone, PBool True])
        [Some ''x'', None]
       = Inr [''a b'', ''-120'', '''', ''None'', ''True'']"
proof (intro conjI)
  show "values_set_then_get (PList s) self = Inr (map (\<lambda>x. strip (py_str x)) s)"
    by (simp add: values_set_then_get_def values_setter_PList values_getter_items)
  show "values_set_then_get (PList [PStr '' a b '', PInt (- 120), PStr ''  '', PNone, PBool True])
        [Some ''x'', None]
       = Inr [''a b'', ''-120'', '''', ''None'', ''True'']"
    by code_simp
qed

text \<open>
  C4 as claimed fails: of \<open>["a", "", "b"]\<close> the claim keeps \<open>["a", "b"]\<close>, the editor
  returns all three.
\<close>

theorem values_empty_kept_counterexample:
  "values_set_then_get (PList [PStr ''a'', PStr '''', PStr ''b'']) [] = Inr [''a'', '''', ''b'']
   \<and> values_as_specified [PStr ''a'', PStr '''', PStr ''b''] = [''a'', ''b'']
   \<and> values_set_then_get (PList [PStr ''a'', PStr '''', PStr ''b'']) []
       \<noteq> Inr (values_as_specified [PStr ''a'', PStr '''', PStr ''b''])"
  by code_simp

text \<open>
  C10.  The constructor of the string-list table does not use its \<open>values\<close> argument:
  without further positional arguments the new table has no rows, and \<open>get value()\<close> on
  the new table is empty whatever was passed.
\<close>

theorem StringListTable_init_ignores_values:
  "StringListTable_init values None = []
   \<and> length (StringListTable_init values None) = 0
   \<and> values_getter (StringListTable_init values args) = []"
  by (simp add: StringListTable_init_def QTableWidget_init_def values_getter_no_items
      split: option.splits)

section \<open>Properties of the label\<close>

lemma strip_unchanged:
  assumes "s \<noteq> []" "\<not> is_space (hd s)" "\<not> is_space (last s)"
  shows "strip s = s"
proof -
  have 1: "dropWhile is_space s = s" using assms by (simp add: dropWhile_eq_self_iff)
  have 2: "dropWhile is_space (rev s) = rev s"
    using assms by (simp add: dropWhile_eq_self_iff hd_rev)
  show ?thesis by (simp add: strip_def 1 2)
qed

lemma last_space_before_capitals: "last (c # space_before_capitals cs) = last (c # cs)"
  by (induction cs arbitrary: c) auto

lemma re_sub_spaced_plain:
  "no_adjacent_capitals s \<Longrightarrow> \<forall>x \<in> set s. x \<noteq> CHR 0x0A \<Longrightarrow> s \<noteq> [] \<Longrightarrow>
   re_sub_spaced s = hd s # space_before_capitals (tl s)"
proof (induction s rule: re_sub_spaced.induct)
  case (1 c d rest)
  show ?case
  proof (cases "is_AZ d")
    case True
    show ?thesis
    proof (cases rest)
      case Nil
      then show ?thesis using True 1 by auto
    next
      case (Cons e r)
      have "\<not> is_AZ e" using "1.prems" True Cons by simp
      moreover have "re_sub_spaced rest = hd rest # space_before_capitals (tl rest)"
        using "1.IH"(1) "1.prems" True Cons by simp
      ultimately show ?thesis using True "1.prems" Cons by auto
    qed
  next
    case False
    then show ?thesis using 1 by auto
  qed
qed simp_all

lemma newline_is_space: "is_space (CHR 0x0A)"
  by (simp add: is_space_def)

text \<open>
  C9, as the code has it.  For a property name of ASCII characters without white space
  in which no capital letter directly follows another, the label is the name with a
  blank before each internal capital letter, the first character in upper case and all
  others in lower case.
\<close>

theorem label_of_plain_name:
  assumes "plain_name attr" and "no_adjacent_capitals attr"
  shows "get_helper_label_text attr = label_as_specified attr"
proof (cases attr)
  case Nil
  then show ?thesis by (simp add: get_helper_label_text_def strip_def)
next
  case (Cons c cs)
  have ns: "\<forall>x \<in> set attr. \<not> is_space x"
    using assms(1) by (simp add: plain_name_def list_all_iff)
  then have nl: "\<forall>x \<in> set attr. x \<noteq> CHR 0x0A" using newline_is_space by blast
  have sp: "re_sub_spaced attr = c # space_before_capitals cs"
    using re_sub_spaced_plain [OF assms(2) nl] Cons by simp
  have "last attr \<in> set attr" using Cons by simp
  then have "\<not> is_space (last attr)" using ns by blast
  then have "\<not> is_space (last (c # space_before_capitals cs))"
    unfolding last_space_before_capitals Cons .
  moreover have "\<not> is_space c" using ns Cons by simp
  ultimately have "strip (c # space_before_capitals cs) = c # space_before_capitals cs"
    by (intro strip_unchanged) simp_all
  then show ?thesis using sp by (simp add: get_helper_label_text_def Cons)
qed

text \<open>The name \<open>maxAlarmCount\<close> is such a name and renders as \<open>Max alarm count\<close>.\<close>

theorem label_of_plain_name_witness:
  "plain_name ''maxAlarmCount'' \<and> no_adjacent_capitals ''maxAlarmCount''
   \<and> get_helper_label_text ''maxAlarmCount'' = ''Max alarm count''"
proof -
  have a: "plain_name ''maxAlarmCount''" by code_simp
  have b: "no_adjacent_capitals ''maxAlarmCount''" by code_simp
  have c: "label_as_specified ''maxAlarmCount'' = ''Max alarm count''" by code_simp
  have d: "get_helper_label_text ''maxAlarmCount'' = ''Max alarm count''"
    using label_of_plain_name [OF a b] unfolding c .
  show ?thesis using a b d by (intro conjI)
qed

text \<open>
  C9 as claimed fails where capitals are adjacent: the matches of the regular expression
  do not overlap, so the capital that ends one match gets no blank after it.  Of
  \<open>PVName\<close> the claim makes \<open>P v name\<close>, the code \<open>P vname\<close>.
\<close>

theorem label_adjacent_capitals_counterexample:
  "get_helper_label_text ''PVName'' = ''P vname''
   \<and> label_as_specified ''PVName'' = ''P v name''
   \<and> get_helper_label_text ''PVName'' \<noteq> label_as_specified ''PVName''"
  by code_simp

section \<open>Properties of discovery and dispatch\<close>

lemma set_value_from_widget_class:
  "set_value_from_widget ev c v = (lg, Inr c') \<Longrightarrow> class_of c' = class_of c"
  by (cases c) (auto split: pyval.splits pyatom.splits sum.splits)

lemma class_of_default_control: "class_of (default_control cls) = cls"
  by (cases cls) simp_all

lemma PropertyHelper_init_name:
  "property_name (fst (PropertyHelper_init ev cls w attr)) = attr"
  by (simp add: PropertyHelper_init_def Let_def split: sum.splits prod.splits)

lemma PropertyHelper_init_class:
  "class_of (control (fst (PropertyHelper_init ev cls w attr))) = cls"
  by (auto simp: PropertyHelper_init_def Let_def class_of_default_control
      split: sum.splits prod.splits dest: set_value_from_widget_class)

lemma loop_names:
  "map (\<lambda>(label, h, lg). property_name h) (create_helper_widgets_loop ev w as)
     = filter (has_editor (widget_type w)) as"
proof (induction as)
  case Nil
  then show ?case by simp
next
  case (Cons a as)
  show ?case
  proof (cases "map_of (class_attrs (widget_type w)) a")
    case None
    then show ?thesis using Cons by (simp add: has_editor_def)
  next
    case declared: (Some pt)
    show ?thesis
    proof (cases "helper_widget_cls a pt")
      case None
      then show ?thesis using Cons declared by (simp add: has_editor_def)
    next
      case (Some cls)
      obtain h lg where i: "PropertyHelper_init ev cls w a = (h, lg)"
        by (cases "PropertyHelper_init ev cls w a")
      have "property_name h = a" using PropertyHelper_init_name [of ev cls w a] i by simp
      then show ?thesis
        using Cons Some declared i by (simp add: has_editor_def)
    qed
  qed
qed

lemma editor_names_init:
  "editor_names (BasicSettingsEditor_init ev w)
     = filter (has_editor (widget_type w))
         (map fst common_attributes @ other_attrs (widget_type w))"
proof -
  have m: "map property_name (map (\<lambda>(label, h, lg). h) rows)
             = map (\<lambda>(label, h, lg). property_name h) rows"
    for rows :: "(string \<times> helper \<times> log_entry list) list"
    by (induction rows) auto
  have "editor_names (BasicSettingsEditor_init ev w)
          = map property_name (map (\<lambda>(label, h, lg). h) (create_helper_widgets ev w))"
    by (simp add: editor_names_def BasicSettingsEditor_init_def Let_def del: map_map)
  also have "\<dots> = map (\<lambda>(label, h, lg). property_name h) (create_helper_widgets ev w)"
    by (rule m)
  also have "\<dots> = filter (has_editor (widget_type w))
                      (map fst common_attributes @ other_attrs (widget_type w))"
    unfolding create_helper_widgets_def by (rule loop_names)
  finally show ?thesis .
qed

lemma common_names:
  "map fst common_attributes = [''channel'', ''display'', ''macros'', ''filenames'', ''rules'']"
  by (simp add: common_attributes_def)

lemma distinct_common_names: "distinct (map fst common_attributes)"
  by code_simp

lemma has_editor_common:
  "map_of common_attributes a \<noteq> None \<Longrightarrow> has_editor cls a = declares cls a"
  by (auto simp: has_editor_def declares_def helper_widget_cls_def dict_get_def
      split: option.splits)

lemma has_editor_other:
  "map_of common_attributes a = None \<Longrightarrow> has_editor cls a = type_selected cls a"
  by (auto simp: has_editor_def type_selected_def helper_widget_cls_def dict_get_def
      split: option.splits)

lemma filter_common:
  "filter (has_editor cls) (map fst common_attributes)
     = filter (declares cls) (map fst common_attributes)"
proof (rule filter_cong [OF refl])
  fix a assume "a \<in> set (map fst common_attributes)"
  then have "map_of common_attributes a \<noteq> None"
    by (metis map_of_eq_None_iff set_map)
  then show "has_editor cls a = declares cls a" by (rule has_editor_common)
qed

lemma filter_other:
  "filter (has_editor cls) (other_attrs cls) = filter (type_selected cls) (other_attrs cls)"
  by (rule filter_cong [OF refl]) (simp add: other_attrs_def has_editor_other)

lemma set_other_attrs:
  "set (other_attrs cls) = set (get_qt_properties cls) - set (map fst common_attributes)"
  by (auto simp: other_attrs_def map_of_eq_None_iff)

lemma editor_names_split:
  "editor_names (BasicSettingsEditor_init ev w)
     = filter (declares (widget_type w)) (map fst common_attributes)
       @ filter (type_selected (widget_type w)) (other_attrs (widget_type w))"
  by (simp only: editor_names_init filter_append filter_common filter_other)

lemma get_qt_properties_designable: "get_qt_properties cls = designable_names cls"
proof -
  have "get_qt_properties_loop ps
          = map prop_name (filter isDesignable (List.map_filter (\<lambda>p. p) ps))" for ps
    by (induction ps rule: get_qt_properties_loop.induct) simp_all
  then show ?thesis by (simp add: get_qt_properties_def designable_names_def)
qed

lemma not_common_name:
  "(map_of common_attributes a = None)
     = (a \<notin> set [''channel'', ''display'', ''macros'', ''filenames'', ''rules''])"
  unfolding common_names [symmetric] by (simp add: map_of_eq_None_iff)

lemma other_attrs_designable:
  "other_attrs cls
     = sort (filter (\<lambda>a. a \<notin> set [''channel'', ''display'', ''macros'', ''filenames'', ''rules''])
               (designable_names cls))"
proof -
  have "other_attrs cls
          = filter (\<lambda>a. a \<notin> set [''channel'', ''display'', ''macros'', ''filenames'', ''rules''])
              (sort (designable_names cls))"
    unfolding other_attrs_def get_qt_properties_designable
    by (rule filter_cong [OF refl]) (simp only: not_common_name)
  then show ?thesis by (simp only: filter_sort)
qed

text \<open>
  C5, as the code has it.  The editors of a session are, in this order: the well-known
  names channel, display, macros, filenames, rules that the class of the target
  declares, then, of the designable properties outside the well-known names, sorted by
  code point (capitals before small letters), those for which the type table selects
  an editor.  A designable property of any other type has no editor, and a property
  that is not designable has none unless it is a well-known name.  For a target with
  the designable properties zeta, channel, alpha and macros, of types the type table
  knows, the order is channel, macros, alpha, zeta.
\<close>

theorem editor_order:
  "editor_names (BasicSettingsEditor_init ev w)
      = filter (declares (widget_type w))
          [''channel'', ''display'', ''macros'', ''filenames'', ''rules'']
        @ filter (type_selected (widget_type w))
            (sort (filter (\<lambda>a. a \<notin> set [''channel'', ''display'', ''macros'', ''filenames'', ''rules''])
                     (designable_names (widget_type w))))
   \<and> designable_names (widget_type example_widget) = [''zeta'', ''channel'', ''alpha'', ''macros'']
   \<and> editor_names (BasicSettingsEditor_init ev example_widget)
      = [''channel'', ''macros'', ''alpha'', ''zeta'']
   \<and> designable_names (widget_type mixed_widget)
      = [''objectName'', ''Zeta'', ''channel'', ''speed'', ''alpha'']
   \<and> editor_names (BasicSettingsEditor_init ev mixed_widget) = [''channel'', ''Zeta'', ''alpha'']"
proof (intro conjI)
  have split: "editor_names (BasicSettingsEditor_init ev' w')
      = filter (declares (widget_type w'))
          [''channel'', ''display'', ''macros'', ''filenames'', ''rules'']
        @ filter (type_selected (widget_type w'))
            (sort (filter (\<lambda>a. a \<notin> set [''channel'', ''display'', ''macros'', ''filenames'', ''rules''])
                     (designable_names (widget_type w'))))" for ev' w'
    using editor_names_split [of ev' w']
    by (simp only: common_names other_attrs_designable)
  show "editor_names (BasicSettingsEditor_init ev w)
      = filter (declares (widget_type w))
          [''channel'', ''display'', ''macros'', ''filenames'', ''rules'']
        @ filter (type_selected (widget_type w))
            (sort (filter (\<lambda>a. a \<notin> set [''channel'', ''display'', ''macros'', ''filenames'', ''rules''])
                     (designable_names (widget_type w))))"
    by (rule split)
  show "designable_names (widget_type example_widget)
          = [''zeta'', ''channel'', ''alpha'', ''macros'']"
    by code_simp
  have "filter (declares (widget_type example_widget))
          [''channel'', ''display'', ''macros'', ''filenames'', ''rules'']
        @ filter (type_selected (widget_type example_widget))
            (sort (filter (\<lambda>a. a \<notin> set [''channel'', ''display'', ''macros'', ''filenames'', ''rules''])
                     (designable_names (widget_type example_widget))))
        = [''channel'', ''macros'', ''alpha'', ''zeta'']"
    by code_simp
  then show "editor_names (BasicSettingsEditor_init ev example_widget)
      = [''channel'', ''macros'', ''alpha'', ''zeta'']"
    by (simp only: split)
  show "designable_names (widget_type mixed_widget)
      = [''objectName'', ''Zeta'', ''channel'', ''speed'', ''alpha'']"
    by code_simp
  have "filter (declares (widget_type mixed_widget))
          [''channel'', ''display'', ''macros'', ''filenames'', ''rules'']
        @ filter (type_selected (widget_type mixed_widget))
            (sort (filter (\<lambda>a. a \<notin> set [''channel'', ''display'', ''macros'', ''filenames'', ''rules''])
                     (designable_names (widget_type mixed_widget))))
        = [''channel'', ''Zeta'', ''alpha'']"
    by code_simp
  then show "editor_names (BasicSettingsEditor_init ev mixed_widget)
      = [''channel'', ''Zeta'', ''alpha'']"
    by (simp only: split)
qed

text \<open>
  C5 as claimed fails: the designable properties objectName and speed of \<open>mixed_class\<close>
  are not among the well-known names and get no editor, where the claim lists all
  remaining designable properties; and \<open>Zeta\<close> comes before \<open>alpha\<close>.
\<close>

theorem editor_order_counterexample:
  "editor_names (BasicSettingsEditor_init example_env mixed_widget)
     = [''channel'', ''Zeta'', ''alpha'']
   \<and> editor_order_as_specified (widget_type mixed_widget)
     = [''channel'', ''Zeta'', ''alpha'', ''objectName'', ''speed'']
   \<and> editor_names (BasicSettingsEditor_init example_env mixed_widget)
     \<noteq> editor_order_as_specified (widget_type mixed_widget)"
  by code_simp

text \<open>
  C6.  The helper class of a property is the entry of the name table when the name has
  one, and the entry of the type table otherwise; a declared property with an entry in
  neither table adds nothing to the form, and the loop goes on with the next property.
  A property named macros of type \<open>str\<close> gets the macro table, where the type table
  alone gives the line edit.
\<close>

theorem dispatch_precedence:
  "helper_widget_cls attr prop_type
      = (case map_of common_attributes attr of
           Some cls \<Rightarrow> Some cls
         | None \<Rightarrow> type_to_widget_get prop_type)
   \<and> (map_of (class_attrs (widget_type w)) attr = Some prop_type
        \<and> map_of common_attributes attr = None \<and> type_to_widget_get prop_type = None
       \<longrightarrow> create_helper_widgets_loop ev w (attr # rest) = create_helper_widgets_loop ev w rest)
   \<and> helper_widget_cls ''macros'' (Some Ty_str) = Some PropertyMacroTable
   \<and> type_to_widget_get (Some Ty_str) = Some PropertyLineEdit
   \<and> map (\<lambda>h. (property_name h, class_of (control h)))
        (property_widgets (BasicSettingsEditor_init example_env example_widget))
      = [(''channel'', PropertyLineEdit), (''macros'', PropertyMacroTable),
         (''alpha'', PropertyIntSpinBox), (''zeta'', PropertyLineEdit)]"
proof (intro conjI impI)
  show "helper_widget_cls attr prop_type
      = (case map_of common_attributes attr of
           Some cls \<Rightarrow> Some cls
         | None \<Rightarrow> type_to_widget_get prop_type)"
    by (simp add: helper_widget_cls_def dict_get_def)
  show "create_helper_widgets_loop ev w (attr # rest) = create_helper_widgets_loop ev w rest"
    if "map_of (class_attrs (widget_type w)) attr = Some prop_type
        \<and> map_of common_attributes attr = None \<and> type_to_widget_get prop_type = None"
    using that by (simp add: helper_widget_cls_def dict_get_def)
  show "helper_widget_cls ''macros'' (Some Ty_str) = Some PropertyMacroTable"
    by code_simp
  show "type_to_widget_get (Some Ty_str) = Some PropertyLineEdit"
    by code_simp
  show "map (\<lambda>h. (property_name h, class_of (control h)))
        (property_widgets (BasicSettingsEditor_init example_env example_widget))
      = [(''channel'', PropertyLineEdit), (''macros'', PropertyMacroTable),
         (''alpha'', PropertyIntSpinBox), (''zeta'', PropertyLineEdit)]"
    by code_simp
qed


text \<open>A property \<open>speed\<close> of type \<open>float\<close> has an entry in neither table and is
  skipped.\<close>

theorem dispatch_precedence_witness:
  "map_of (class_attrs (widget_type (example_widget\<lparr>widget_type :=
       \<lparr>staticMetaObject = [Some \<lparr>prop_name = ''speed'', isDesignable = True\<rparr>],
        class_attrs = [(''speed'', Some (Ty_other ''float''))]\<rparr>\<rparr>))) ''speed''
     = Some (Some (Ty_other ''float''))
   \<and> map_of common_attributes ''speed'' = None
   \<and> type_to_widget_get (Some (Ty_other ''float'')) = None
   \<and> create_helper_widgets_loop example_env
        (example_widget\<lparr>widget_type :=
           \<lparr>staticMetaObject = [Some \<lparr>prop_name = ''speed'', isDesignable = True\<rparr>],
            class_attrs = [(''speed'', Some (Ty_other ''float''))]\<rparr>\<rparr>)
        [''speed'']
      = []"
proof -
  let ?w = "example_widget\<lparr>widget_type :=
       \<lparr>staticMetaObject = [Some \<lparr>prop_name = ''speed'', isDesignable = True\<rparr>],
        class_attrs = [(''speed'', Some (Ty_other ''float''))]\<rparr>\<rparr>"
  have a: "map_of (class_attrs (widget_type ?w)) ''speed'' = Some (Some (Ty_other ''float''))"
    by code_simp
  have b: "map_of common_attributes ''speed'' = None" by code_simp
  have c: "type_to_widget_get (Some (Ty_other ''float'')) = None" by code_simp
  have d: "create_helper_widgets_loop example_env ?w [] = []" by (rule create_helper_widgets_loop.simps(1))
  have "create_helper_widgets_loop example_env ?w [''speed'']
          = create_helper_widgets_loop example_env ?w []"
    using dispatch_precedence [of "''speed''" "Some (Ty_other ''float'')" ?w example_env "[]"]
      a b c by blast
  then have e: "create_helper_widgets_loop example_env ?w [''speed''] = []"
    unfolding d .
  show ?thesis using a b c e by (intro conjI)
qed

lemma distinct_other_attrs:
  "distinct (get_qt_properties cls) \<Longrightarrow> distinct (other_attrs cls)"
  by (simp add: other_attrs_def)

text \<open>
  C7, as the code has it.  The properties that get an editor are the well-known names
  that the class of the target declares, designable or not, and the designable
  properties outside the well-known names for which the type table selects an editor.
  When no name occurs twice among the designable properties of the meta object, no
  property gets more than one editor.
\<close>

theorem editors_are_selected_properties:
  "set (editor_names (BasicSettingsEditor_init ev w))
      = set (filter (declares (widget_type w))
               [''channel'', ''display'', ''macros'', ''filenames'', ''rules''])
        \<union> set (filter (\<lambda>a. map_of common_attributes a = None \<and> type_selected (widget_type w) a)
                  (get_qt_properties (widget_type w)))
   \<and> (distinct (get_qt_properties (widget_type w))
        \<longrightarrow> distinct (editor_names (BasicSettingsEditor_init ev w)))"
proof (intro conjI impI)
  have "set (filter (type_selected (widget_type w)) (other_attrs (widget_type w)))
          = set (filter (\<lambda>a. map_of common_attributes a = None \<and> type_selected (widget_type w) a)
                  (get_qt_properties (widget_type w)))"
    by (auto simp: other_attrs_def)
  then show "set (editor_names (BasicSettingsEditor_init ev w))
      = set (filter (declares (widget_type w))
               [''channel'', ''display'', ''macros'', ''filenames'', ''rules''])
        \<union> set (filter (\<lambda>a. map_of common_attributes a = None \<and> type_selected (widget_type w) a)
                  (get_qt_properties (widget_type w)))"
    unfolding editor_names_split set_append common_names [symmetric] by simp
next
  assume d: "distinct (get_qt_properties (widget_type w))"
  have 1: "distinct (filter (declares (widget_type w)) (map fst common_attributes))"
    using distinct_common_names by (rule distinct_filter)
  have 2: "distinct (filter (type_selected (widget_type w)) (other_attrs (widget_type w)))"
    using distinct_other_attrs [OF d] by (rule distinct_filter)
  have 3: "set (filter (declares (widget_type w)) (map fst common_attributes))
             \<inter> set (filter (type_selected (widget_type w)) (other_attrs (widget_type w))) = {}"
    using set_other_attrs [of "widget_type w"] by auto
  show "distinct (editor_names (BasicSettingsEditor_init ev w))"
    unfolding editor_names_split distinct_append using 1 2 3 by (intro conjI)
qed

text \<open>The designable properties of the example widget have four different names, and
  so have its editors.\<close>

theorem editors_are_selected_properties_witness:
  "distinct (get_qt_properties (widget_type example_widget))
   \<and> distinct (editor_names (BasicSettingsEditor_init example_env example_widget))"
proof -
  have a: "distinct (get_qt_properties (widget_type example_widget))" by code_simp
  have "distinct (editor_names (BasicSettingsEditor_init example_env example_widget))"
    using editors_are_selected_properties [of example_env example_widget, THEN conjunct2]
      a by (rule mp)
  with a show ?thesis by (intro conjI)
qed

text \<open>
  C7 as claimed fails: a class that declares \<open>rules\<close> as a property that is not
  designable gets a rule editor all the same, since the well-known names are taken from
  the name table and not from the designable properties.
\<close>

theorem nondesignable_rules_counterexample:
  "editor_names (BasicSettingsEditor_init example_env rules_widget) = [''channel'', ''rules'']
   \<and> get_qt_properties (widget_type rules_widget) = [''channel'']
   \<and> recognized_designable (widget_type rules_widget) = [''channel'']
   \<and> set (editor_names (BasicSettingsEditor_init example_env rules_widget))
       \<noteq> set (recognized_designable (widget_type rules_widget))"
  by code_simp

section \<open>Properties of helper construction\<close>

text \<open>
  C8, as the code has it.  When the getter of the property raises an exception other
  than \<open>AttributeError\<close>, the helper is the one its Qt constructor made, the exception is
  in the log and nothing is raised; the same holds for the macro table when the macro
  string does not parse (the table stays without rows).  An \<open>AttributeError\<close> of the
  getter is replaced by \<open>None\<close>, the default of \<open>getattr\<close>: the helper loads \<open>None\<close> like
  any value, and for a line edit or a check box nothing is logged.  The session has the
  same editors whatever was raised while they were constructed, and it is open.
\<close>

theorem load_failure_absorbed:
  "(py_getattr w attr = Inl e \<and> e \<noteq> AttributeError \<longrightarrow>
      PropertyHelper_init ev cls w attr
        = (\<lparr>property_name = attr, control = default_control cls\<rparr>,
           [Exception_set_state cls attr (Atom PNone) e]))
   \<and> (py_getattr w attr = Inl AttributeError \<longrightarrow>
        value_from_widget w attr = Inr (Atom PNone)
        \<and> PropertyHelper_init ev PropertyLineEdit w attr
            = (\<lparr>property_name = attr, control = LineEdit []\<rparr>, [])
        \<and> PropertyHelper_init ev PropertyCheckbox w attr
            = (\<lparr>property_name = attr, control = CheckBox False\<rparr>, []))
   \<and> (value_from_widget w attr = Inr v
        \<and> parse_macro_string ev (py_or v (Atom (PStr []))) = Inl e \<longrightarrow>
      PropertyHelper_init ev PropertyMacroTable w attr
        = (\<lparr>property_name = attr, control = MacroTable []\<rparr>, [Exception_parse_macro v e]))
   \<and> default_control PropertyMacroTable = MacroTable []
   \<and> default_control PropertyStringList = StringList []
   \<and> editor_names (BasicSettingsEditor_init ev w)
       = filter (has_editor (widget_type w))
           (map fst common_attributes @ other_attrs (widget_type w))
   \<and> dialog (BasicSettingsEditor_init ev w) = Open"
proof (intro conjI impI)
  have m: "default_control PropertyMacroTable = MacroTable []"
    by (simp add: DictionaryTable_init_def QTableWidget_init_def dictionary_setter_def
        setRowCount_def)
  show "default_control PropertyMacroTable = MacroTable []" by (rule m)
  show "default_control PropertyStringList = StringList []"
    by (simp add: StringListTable_init_def QTableWidget_init_def)
  show "PropertyHelper_init ev cls w attr
        = (\<lparr>property_name = attr, control = default_control cls\<rparr>,
           [Exception_set_state cls attr (Atom PNone) e])"
    if "py_getattr w attr = Inl e \<and> e \<noteq> AttributeError"
    using that by (simp add: PropertyHelper_init_def value_from_widget_def py_getattr_default_def)
  show "value_from_widget w attr = Inr (Atom PNone)"
    if "py_getattr w attr = Inl AttributeError"
    using that by (simp add: value_from_widget_def py_getattr_default_def)
  show "PropertyHelper_init ev PropertyLineEdit w attr
            = (\<lparr>property_name = attr, control = LineEdit []\<rparr>, [])"
    if "py_getattr w attr = Inl AttributeError"
    using that
    by (simp add: PropertyHelper_init_def value_from_widget_def py_getattr_default_def py_or_def)
  show "PropertyHelper_init ev PropertyCheckbox w attr
            = (\<lparr>property_name = attr, control = CheckBox False\<rparr>, [])"
    if "py_getattr w attr = Inl AttributeError"
    using that
    by (simp add: PropertyHelper_init_def value_from_widget_def py_getattr_default_def)
  show "PropertyHelper_init ev PropertyMacroTable w attr
        = (\<lparr>property_name = attr, control = MacroTable []\<rparr>, [Exception_parse_macro v e])"
    if "value_from_widget w attr = Inr v
        \<and> parse_macro_string ev (py_or v (Atom (PStr []))) = Inl e"
    using that m by (simp add: PropertyHelper_init_def)
  show "editor_names (BasicSettingsEditor_init ev w)
       = filter (has_editor (widget_type w))
           (map fst common_attributes @ other_attrs (widget_type w))"
    by (rule editor_names_init)
  show "dialog (BasicSettingsEditor_init ev w) = Open"
    by (simp add: BasicSettingsEditor_init_def Let_def)
qed

text \<open>
  A getter of \<open>channel\<close> that raises \<open>RuntimeError\<close>, one that raises \<open>AttributeError\<close>,
  and the macro string \<open>a=\<close> that the example parser refuses.
\<close>

theorem load_failure_absorbed_witness:
  "py_getattr broken_getter_widget ''channel'' = Inl RuntimeError
   \<and> RuntimeError \<noteq> AttributeError
   \<and> PropertyHelper_init example_env PropertyLineEdit broken_getter_widget ''channel''
       = (\<lparr>property_name = ''channel'', control = default_control PropertyLineEdit\<rparr>,
          [Exception_set_state PropertyLineEdit ''channel'' (Atom PNone) RuntimeError])
   \<and> py_getattr attribute_error_widget ''channel'' = Inl AttributeError
   \<and> value_from_widget attribute_error_widget ''channel'' = Inr (Atom PNone)
   \<and> value_from_widget bad_macros_widget ''macros'' = Inr (Atom (PStr ''a=''))
   \<and> parse_macro_string example_env (py_or (Atom (PStr ''a='')) (Atom (PStr [])))
       = Inl (Error ''ValueError'')
   \<and> PropertyHelper_init example_env PropertyMacroTable bad_macros_widget ''macros''
       = (\<lparr>property_name = ''macros'', control = MacroTable []\<rparr>,
          [Exception_parse_macro (Atom (PStr ''a='')) (Error ''ValueError'')])"
proof -
  have a: "py_getattr broken_getter_widget ''channel'' = Inl RuntimeError"
    by code_simp
  have a': "RuntimeError \<noteq> AttributeError" by simp
  have b: "value_from_widget bad_macros_widget ''macros'' = Inr (Atom (PStr ''a=''))"
    by code_simp
  have c: "parse_macro_string example_env (py_or (Atom (PStr ''a='')) (Atom (PStr [])))
             = Inl (Error ''ValueError'')"
    by code_simp
  have d: "py_getattr attribute_error_widget ''channel'' = Inl AttributeError"
    by code_simp
  have 1: "PropertyHelper_init example_env PropertyLineEdit broken_getter_widget ''channel''
       = (\<lparr>property_name = ''channel'', control = default_control PropertyLineEdit\<rparr>,
          [Exception_set_state PropertyLineEdit ''channel'' (Atom PNone) RuntimeError])"
    using load_failure_absorbed
      [of broken_getter_widget "''channel''" RuntimeError example_env PropertyLineEdit,
       THEN conjunct1] conjI [OF a a']
    by (rule mp)
  have "value_from_widget attribute_error_widget ''channel'' = Inr (Atom PNone)
        \<and> PropertyHelper_init example_env PropertyLineEdit attribute_error_widget ''channel''
            = (\<lparr>property_name = ''channel'', control = LineEdit []\<rparr>, [])
        \<and> PropertyHelper_init example_env PropertyCheckbox attribute_error_widget ''channel''
            = (\<lparr>property_name = ''channel'', control = CheckBox False\<rparr>, [])"
    using load_failure_absorbed
      [of attribute_error_widget "''channel''" _ example_env,
       THEN conjunct2, THEN conjunct1] d
    by (rule mp)
  then have 2: "value_from_widget attribute_error_widget ''channel'' = Inr (Atom PNone)"
    by (rule conjunct1)
  have 3: "PropertyHelper_init example_env PropertyMacroTable bad_macros_widget ''macros''
       = (\<lparr>property_name = ''macros'', control = MacroTable []\<rparr>,
          [Exception_parse_macro (Atom (PStr ''a='')) (Error ''ValueError'')])"
    using load_failure_absorbed
      [of bad_macros_widget "''macros''" "Error ''ValueError''" example_env _
          "Atom (PStr ''a='')", THEN conjunct2, THEN conjunct2, THEN conjunct1] conjI [OF b c]
    by (rule mp)
  show ?thesis using a a' 1 d 2 b c 3 by (intro conjI)
qed

text \<open>
  C8 as claimed fails for an \<open>AttributeError\<close>: the getter of \<open>channel\<close> raises it, the
  line edit is constructed empty, and neither the helper nor the session logs anything.
\<close>

theorem attribute_error_not_logged_counterexample:
  "py_getattr attribute_error_widget ''channel'' = Inl AttributeError
   \<and> PropertyHelper_init example_env PropertyLineEdit attribute_error_widget ''channel''
       = (\<lparr>property_name = ''channel'', control = LineEdit []\<rparr>, [])
   \<and> logged (BasicSettingsEditor_init example_env attribute_error_widget) = []"
  by code_simp

section \<open>Properties of the session\<close>

lemma rule_button_class:
  "(control h = RuleButton) = (class_of (control h) = PropertyRuleEditor)"
  by (cases "control h") auto

lemma has_rule_editor_classes:
  "has_rule_editor s
     = (PropertyRuleEditor \<in> set (map (\<lambda>h. class_of (control h)) (property_widgets s)))"
  unfolding has_rule_editor_def list_ex_iff rule_button_class by force

lemma user_step_classes:
  "map (\<lambda>h. class_of (control h)) (property_widgets (user_step a s))
     = map (\<lambda>h. class_of (control h)) (property_widgets s)"
  by (cases a) (simp_all add: map_update list_update_same_conv)

lemma user_step_has_rule_editor: "has_rule_editor (user_step a s) = has_rule_editor s"
  by (simp only: has_rule_editor_classes user_step_classes)

lemma user_step_dialog: "dialog (user_step a s) = dialog s"
  by (cases a) simp_all

lemma fold_user_step_widget:
  "dialog s = Open \<Longrightarrow>
   widget (fold user_step actions s)
     = (if has_rule_editor s then rules_editor_effect actions (widget s) else widget s)"
proof (induction actions arbitrary: s)
  case Nil
  then show ?case by simp
next
  case (Cons a actions)
  have "dialog (user_step a s) = Open" using Cons.prems by (simp add: user_step_dialog)
  from Cons.IH [OF this]
  have "widget (fold user_step (a # actions) s)
          = (if has_rule_editor s then rules_editor_effect actions (widget (user_step a s))
             else widget (user_step a s))"
    by (simp add: user_step_has_rule_editor)
  moreover have "widget (user_step a s)
      = (case a of EditControl i c \<Rightarrow> widget s
         | OpenRulesEditor f \<Rightarrow> if has_rule_editor s then f (widget s) else widget s)"
    using Cons.prems by (cases a) (simp_all add: has_rule_editor_def)
  ultimately show ?case by (cases a) simp_all
qed

lemma rules_editor_effect_edits:
  "list_all is_edit actions \<Longrightarrow> rules_editor_effect actions w = w"
  by (induction actions w rule: rules_editor_effect.induct) simp_all

lemma init_open: "dialog (BasicSettingsEditor_init ev w) = Open"
  by (simp add: BasicSettingsEditor_init_def Let_def)

lemma init_widget: "widget (BasicSettingsEditor_init ev w) = w"
  by (simp add: BasicSettingsEditor_init_def Let_def)

text \<open>
  C2.  \<open>cancel()\<close> leaves the target as it is and closes the dialog.  From the opening
  of the session, through anything the user does, to \<open>cancel()\<close>, the target is changed
  by the rules editor only, when the session has a rule editor and the user opened it;
  when the user only edited, the target after \<open>cancel()\<close> is the target the session was
  opened on.
\<close>

theorem cancel_writes_nothing:
  "widget (cancel_changes s) = widget s
   \<and> dialog (cancel_changes s) = Closed
   \<and> widget (cancel_changes (fold user_step actions (BasicSettingsEditor_init ev w)))
       = (if has_rule_editor (BasicSettingsEditor_init ev w)
          then rules_editor_effect actions w else w)
   \<and> (list_all is_edit actions \<longrightarrow>
        widget (cancel_changes (fold user_step actions (BasicSettingsEditor_init ev w))) = w)"
proof -
  have a: "widget (cancel_changes t) = widget t" for t
    by (simp add: cancel_changes_def)
  have b: "widget (fold user_step actions (BasicSettingsEditor_init ev w))
       = (if has_rule_editor (BasicSettingsEditor_init ev w)
          then rules_editor_effect actions w else w)"
    using fold_user_step_widget [OF init_open, of actions ev w] by (simp add: init_widget)
  have c: "widget (fold user_step actions (BasicSettingsEditor_init ev w)) = w"
    if "list_all is_edit actions"
    using b rules_editor_effect_edits [OF that, of w] by simp
  show ?thesis
    using a b c by (simp add: cancel_changes_def)
qed

text \<open>The user retypes the channel and ticks nothing else, then cancels.\<close>

theorem cancel_writes_nothing_witness:
  "list_all is_edit [EditControl 0 (LineEdit ''ca://OTHER''), EditControl 2 (SpinBox 7)]
   \<and> widget (cancel_changes
        (fold user_step [EditControl 0 (LineEdit ''ca://OTHER''), EditControl 2 (SpinBox 7)]
           (BasicSettingsEditor_init example_env example_widget)))
       = example_widget"
proof -
  have a: "list_all is_edit [EditControl 0 (LineEdit ''ca://OTHER''), EditControl 2 (SpinBox 7)]"
    by simp
  have "widget (cancel_changes
        (fold user_step [EditControl 0 (LineEdit ''ca://OTHER''), EditControl 2 (SpinBox 7)]
           (BasicSettingsEditor_init example_env example_widget)))
       = example_widget"
    using cancel_writes_nothing
      [of _ "[EditControl 0 (LineEdit ''ca://OTHER''), EditControl 2 (SpinBox 7)]"
          example_env example_widget,
       THEN conjunct2, THEN conjunct2, THEN conjunct2] a
    by (rule mp)
  with a show ?thesis by (intro conjI)
qed

lemma saved_value_raises: "(saved_value ev c = Inl e) = (c = NoControl \<and> e = TypeError)"
  by (cases c) auto

lemma no_control_class: "(c = NoControl) = (class_of c = PropertyHelper)"
  by (cases c) auto

lemma map_of_value_not:
  "map_of d k = Some v \<Longrightarrow> v0 \<notin> snd ` set d \<Longrightarrow> v \<noteq> v0"
  by (force dest: map_of_SomeD)

lemma helper_widget_cls_not_base:
  assumes "helper_widget_cls attr prop_type = Some cls"
  shows "cls \<noteq> PropertyHelper"
proof -
  have c: "PropertyHelper \<notin> snd ` set common_attributes"
    by (simp add: common_attributes_def)
  have t: "PropertyHelper \<notin> snd ` set type_to_widget"
    by (simp add: type_to_widget_def)
  show ?thesis
  proof (cases "map_of common_attributes attr")
    case (Some c')
    then have "c' = cls" using assms by (simp add: helper_widget_cls_def dict_get_def)
    then show ?thesis using map_of_value_not [OF Some c] by simp
  next
    case None
    then have "type_to_widget_get prop_type = Some cls"
      using assms by (simp add: helper_widget_cls_def dict_get_def)
    then obtain ty where "map_of type_to_widget ty = Some cls"
      by (cases prop_type; cases "map_of type_to_widget (the prop_type)")
         (auto simp: type_to_widget_get_def dict_get_def)
    then show ?thesis using map_of_value_not [OF _ t] by blast
  qed
qed

lemma reads_cleanly_classes:
  "list_all (\<lambda>h. control h \<noteq> NoControl) hs
     = (PropertyHelper \<notin> set (map (\<lambda>h. class_of (control h)) hs))"
proof (induction hs)
  case Nil
  then show ?case by simp
next
  case (Cons h hs)
  have "(control h \<noteq> NoControl) = (PropertyHelper \<noteq> class_of (control h))"
    using no_control_class [of "control h"] by auto
  then show ?case using Cons by simp
qed

lemma loop_classes:
  "list_all (\<lambda>(label, h, lg). control h \<noteq> NoControl) (create_helper_widgets_loop ev w as)"
proof (induction as)
  case Nil
  then show ?case by simp
next
  case (Cons a as)
  show ?case
  proof (cases "map_of (class_attrs (widget_type w)) a")
    case None
    then show ?thesis using Cons by simp
  next
    case declared: (Some pt)
    show ?thesis
    proof (cases "helper_widget_cls a pt")
      case None
      then show ?thesis using Cons declared by simp
    next
      case (Some cls)
      obtain h lg where i: "PropertyHelper_init ev cls w a = (h, lg)"
        by (cases "PropertyHelper_init ev cls w a")
      have "class_of (control h) = cls" using PropertyHelper_init_class [of ev cls w a] i by simp
      then have "control h \<noteq> NoControl"
        using helper_widget_cls_not_base [OF Some] by (simp add: no_control_class)
      then show ?thesis using Cons Some declared i by simp
    qed
  qed
qed

lemma init_reads_cleanly:
  "list_all (\<lambda>h. control h \<noteq> NoControl) (property_widgets (BasicSettingsEditor_init ev w))"
  using loop_classes [of ev w "map fst common_attributes @ other_attrs (widget_type w)"]
  by (auto simp: BasicSettingsEditor_init_def Let_def create_helper_widgets_def list_all_iff)

text \<open>No session the dialog builds has a helper whose \<open>saved_value\<close> raises.\<close>

lemma session_reads_cleanly:
  "list_all (\<lambda>h. control h \<noteq> NoControl) (property_widgets (session_after ev w actions))"
proof -
  have c: "map (\<lambda>h. class_of (control h)) (property_widgets (fold user_step actions s))
             = map (\<lambda>h. class_of (control h)) (property_widgets s)" for s
    by (induction actions arbitrary: s) (simp_all add: user_step_classes)
  show ?thesis
    using init_reads_cleanly [of ev w]
    unfolding reads_cleanly_classes session_after_def c .
qed

lemma save_changes_loop_fold:
  "list_all (\<lambda>h. control h \<noteq> NoControl) hs \<Longrightarrow>
   save_changes_loop ev hs w lg
     = (fst (fold (save_step ev) hs (w, lg)), snd (fold (save_step ev) hs (w, lg)), None)"
proof (induction hs arbitrary: w lg)
  case Nil
  then show ?case by simp
next
  case (Cons h hs)
  then obtain v where v: "saved_value ev (control h) = Inr v"
    by (cases "saved_value ev (control h)") (auto simp: saved_value_raises)
  have tl: "list_all (\<lambda>h. control h \<noteq> NoControl) hs" using Cons.prems by simp
  obtain lg1 r where s: "save_settings ev h w = (lg1, r)" by (cases "save_settings ev h w")
  show ?case
  proof (cases r)
    case (Inl e)
    then show ?thesis using Cons.IH [OF tl] s v by (simp add: save_step_def)
  next
    case (Inr w')
    then show ?thesis using Cons.IH [OF tl] s by (simp add: save_step_def)
  qed
qed

lemma updated_names_append: "updated_names (xs @ ys) = updated_names xs @ updated_names ys"
  by (induction xs rule: updated_names.induct) simp_all

lemma updated_names_save_step:
  "control h \<noteq> NoControl \<Longrightarrow>
   updated_names (snd (save_step ev h (w, lg)))
     = updated_names lg @ (if has_value ev h then [property_name h] else [])"
proof -
  assume "control h \<noteq> NoControl"
  then obtain v where v: "saved_value ev (control h) = Inr v"
    by (cases "saved_value ev (control h)") (auto simp: saved_value_raises)
  show ?thesis
    by (auto simp: save_step_def save_settings_def has_value_def v update_property_for_widget_def
        updated_names_append split: sum.splits)
qed

lemma updated_names_fold:
  "list_all (\<lambda>h. control h \<noteq> NoControl) hs \<Longrightarrow>
   updated_names (snd (fold (save_step ev) hs (w, lg)))
     = updated_names lg @ map property_name (filter (has_value ev) hs)"
proof (induction hs arbitrary: w lg)
  case Nil
  then show ?case by simp
next
  case (Cons h hs)
  obtain w1 lg1 where st: "save_step ev h (w, lg) = (w1, lg1)"
    by (cases "save_step ev h (w, lg)")
  have h: "control h \<noteq> NoControl" and tl: "list_all (\<lambda>h. control h \<noteq> NoControl) hs"
    using Cons.prems by simp_all
  have "updated_names lg1 = updated_names lg @ (if has_value ev h then [property_name h] else [])"
    using updated_names_save_step [OF h, of ev w lg] st by simp
  then show ?case using Cons.IH [OF tl, of w1 lg1] st by simp
qed

text \<open>
  C1.  On every session the dialog builds, whatever the user did in it, \<open>save()\<close>
  raises nothing and accepts the dialog.  It runs the save step of every editor in list
  order: where a step raises, the handler logs it and the loop goes on with the next
  editor on the unchanged target.  Every editor that has a value to save reaches the
  write, once, in list order.  No editor of such a session raises when its value is
  read; a write to the target may raise.
\<close>

theorem save_absorbs_failures:
  "snd (save_changes ev (session_after ev w actions)) = None
   \<and> dialog (fst (save_changes ev (session_after ev w actions))) = Accepted
   \<and> (widget (fst (save_changes ev (session_after ev w actions))),
       logged (fst (save_changes ev (session_after ev w actions))))
      = fold (save_step ev) (property_widgets (session_after ev w actions))
          (widget (session_after ev w actions), logged (session_after ev w actions))
   \<and> updated_names (logged (fst (save_changes ev (session_after ev w actions))))
      = updated_names (logged (session_after ev w actions))
        @ map property_name (filter (has_value ev) (property_widgets (session_after ev w actions)))
   \<and> list_all (\<lambda>h. case saved_value ev (control h) of Inl e \<Rightarrow> False | Inr v \<Rightarrow> True)
        (property_widgets (session_after ev w actions))"
proof -
  let ?s = "session_after ev w actions"
  have r: "list_all (\<lambda>h. control h \<noteq> NoControl) (property_widgets ?s)"
    by (rule session_reads_cleanly)
  have l: "save_changes_loop ev (property_widgets ?s) (widget ?s) (logged ?s)
      = (fst (fold (save_step ev) (property_widgets ?s) (widget ?s, logged ?s)),
         snd (fold (save_step ev) (property_widgets ?s) (widget ?s, logged ?s)), None)"
    using save_changes_loop_fold [OF r] .
  have 1: "snd (save_changes ev ?s) = None"
    by (simp add: save_changes_def l)
  have 2: "dialog (fst (save_changes ev ?s)) = Accepted"
    by (simp add: save_changes_def l)
  have 3: "(widget (fst (save_changes ev ?s)), logged (fst (save_changes ev ?s)))
      = fold (save_step ev) (property_widgets ?s) (widget ?s, logged ?s)"
    by (simp add: save_changes_def l)
  have "logged (fst (save_changes ev ?s))
          = snd (fold (save_step ev) (property_widgets ?s) (widget ?s, logged ?s))"
    by (simp add: save_changes_def l)
  then have 4: "updated_names (logged (fst (save_changes ev ?s)))
      = updated_names (logged ?s) @ map property_name (filter (has_value ev) (property_widgets ?s))"
    using updated_names_fold [OF r] by simp
  have 5: "list_all (\<lambda>h. case saved_value ev (control h) of Inl e \<Rightarrow> False | Inr v \<Rightarrow> True)
        (property_widgets ?s)"
    using r by (auto simp: list_all_iff saved_value_raises split: sum.splits)
  show ?thesis using 1 2 3 4 5 by (intro conjI)
qed

text \<open>
  The setter of \<open>channel\<close> raises and the user retyped \<open>zeta\<close>: the failure is logged,
  the three editors after \<open>channel\<close> are saved, \<open>zeta\<close> with the new text, and the
  dialog is accepted.
\<close>

theorem save_absorbs_failures_witness:
  "snd (save_changes example_env
          (session_after example_env raising_setter_widget [EditControl 3 (LineEdit ''zz'')]))
     = None
   \<and> dialog (fst (save_changes example_env
          (session_after example_env raising_setter_widget [EditControl 3 (LineEdit ''zz'')])))
     = Accepted
   \<and> logged (fst (save_changes example_env
          (session_after example_env raising_setter_widget [EditControl 3 (LineEdit ''zz'')])))
     = [Info_updating ''label_1'' ''channel'' (Atom (PStr ''ca://PV'')),
        Exception_save ''label_1'' ''channel'' (Atom (PStr ''ca://PV'')) RuntimeError,
        Info_updating ''label_1'' ''macros'' (Atom (PStr ''{}'')),
        Info_updating ''label_1'' ''alpha'' (Atom (PInt 3)),
        Info_updating ''label_1'' ''zeta'' (Atom (PStr ''zz''))]
   \<and> attrs (widget (fst (save_changes example_env
          (session_after example_env raising_setter_widget [EditControl 3 (LineEdit ''zz'')]))))
     = [(''zeta'', Atom (PStr ''zz'')), (''channel'', Atom (PStr ''ca://PV'')),
        (''alpha'', Atom (PInt 3)), (''macros'', Atom (PStr ''{}''))]"
proof -
  let ?s = "session_after example_env raising_setter_widget [EditControl 3 (LineEdit ''zz'')]"
  note t = save_absorbs_failures
    [of example_env raising_setter_widget "[EditControl 3 (LineEdit ''zz'')]"]
  have 1: "snd (save_changes example_env ?s) = None" using t by (rule conjunct1)
  have 2: "dialog (fst (save_changes example_env ?s)) = Accepted"
    using t [THEN conjunct2] by (rule conjunct1)
  have 3: "logged (fst (save_changes example_env ?s))
     = [Info_updating ''label_1'' ''channel'' (Atom (PStr ''ca://PV'')),
        Exception_save ''label_1'' ''channel'' (Atom (PStr ''ca://PV'')) RuntimeError,
        Info_updating ''label_1'' ''macros'' (Atom (PStr ''{}'')),
        Info_updating ''label_1'' ''alpha'' (Atom (PInt 3)),
        Info_updating ''label_1'' ''zeta'' (Atom (PStr ''zz''))]"
    by code_simp
  have 4: "attrs (widget (fst (save_changes example_env ?s)))
     = [(''zeta'', Atom (PStr ''zz'')), (''channel'', Atom (PStr ''ca://PV'')),
        (''alpha'', Atom (PInt 3)), (''macros'', Atom (PStr ''{}''))]"
    by code_simp
  show ?thesis using 1 2 3 4 by (intro conjI)
qed

text \<open>
  The handler of \<open>save_changes\<close> reads \<open>helper.saved_value\<close> again.  For a helper of the
  base class, whose \<open>saved_value\<close> raises, that read raises inside the handler; the
  dialog builds no such helper (\<open>session_reads_cleanly\<close>).
\<close>

lemma save_changes_loop_base_helper:
  "save_changes_loop ev (\<lparr>property_name = attr, control = NoControl\<rparr> # hs) w lg
     = (w, lg, Some TypeError)"
  by (simp add: save_settings_def)

end
